theory Spec2Isabelle
  imports Main
begin

section \<open>Values crossing the HTTP boundary\<close>

text \<open>
  Response bodies are JSON documents. Numbers are integers (ids, counters and
  timestamps in milliseconds); a date is written as its timestamp.
\<close>

datatype json =
    JNull
  | JNum int
  | JStr string
  | JArr "json list"
  | JObj "(string \<times> json) list"

record response =
  status :: nat
  payload :: json

definition json_response :: "nat \<Rightarrow> json \<Rightarrow> response" where
  "json_response code j = \<lparr>status = code, payload = j\<rparr>"

definition message_only :: "string \<Rightarrow> json" where
  "message_only m = JObj [(''message'', JStr m)]"

text \<open>
  \<open>has_key k j\<close>: some object inside \<open>j\<close>, at any depth, has a member named \<open>k\<close>.
\<close>

fun has_key :: "string \<Rightarrow> json \<Rightarrow> bool"
  and has_key_list :: "string \<Rightarrow> json list \<Rightarrow> bool"
  and has_key_members :: "string \<Rightarrow> (string \<times> json) list \<Rightarrow> bool" where
  "has_key k (JObj ms) = has_key_members k ms"
| "has_key k (JArr xs) = has_key_list k xs"
| "has_key k JNull = False"
| "has_key k (JNum n) = False"
| "has_key k (JStr s) = False"
| "has_key_list k [] = False"
| "has_key_list k (x # xs) = (has_key k x \<or> has_key_list k xs)"
| "has_key_members k [] = False"
| "has_key_members k (m # ms) = (fst m = k \<or> has_key k (snd m) \<or> has_key_members k ms)"

text \<open>
  A member of the parsed body that need not be a string. A value that is not a string
  (a number, a boolean, \<open>null\<close>, an array, an object) is given by what the code can
  observe of it: the string that the validators convert it to, and whether it is truthy.
  The number 12345678 is \<open>NonString ''12345678'' True\<close>.
\<close>

datatype jsvalue = JString string | NonString string bool

fun shown :: "jsvalue \<Rightarrow> string" where
  "shown (JString s) = s"
| "shown (NonString s t) = s"

fun truthy_value :: "jsvalue \<Rightarrow> bool" where
  "truthy_value (JString s) = (s \<noteq> [])"
| "truthy_value (NonString s t) = t"

text \<open>The request as the HTTP layer hands it over: the raw token (bearer credential or
  custom header), the \<open>:id\<close> path parameter (the id it denotes) and the parsed body.
  A body member that is absent (\<open>undefined\<close>) is \<open>None\<close>. The password member is any
  value of the body; the other members are strings.\<close>

record body =
  body_username :: "string option"
  body_email :: "string option"
  body_password :: "jsvalue option"
  body_role :: "string option"

record request =
  token :: "string option"
  params_id :: nat
  body :: body

section \<open>models/User.js\<close>

definition ROLES_ADMIN :: string where
  "ROLES_ADMIN = ''admin''"

definition ROLES_USER :: string where
  "ROLES_USER = ''user''"

definition ROLES_values :: "string list" where
  "ROLES_values = [ROLES_ADMIN, ROLES_USER]"

subsection \<open>The store\<close>

text \<open>
  A row of the table \<open>users\<close> (config/db-init.js), which is also a row of a result set:
  a column that the statement does not select is \<open>None\<close>. In the table the password
  column is always set (\<open>NOT NULL\<close>).
\<close>

record row =
  col_id :: nat
  col_username :: string
  col_email :: string
  col_password :: "string option"
  col_role :: string
  col_created_at :: int
  col_updated_at :: int

text \<open>
  The collaborators' calls that the handlers make, in the order they are made:
  the statements sent through \<open>pool.query\<close> and the calls of \<open>bcrypt.hash\<close>.
\<close>

datatype call = Select | Insert | Update | Delete | Hash

record world =
  users_table :: "row list"
  auto_increment :: nat
  clock :: int
  calls :: "call list"

text \<open>
  What the code takes from its libraries and its surroundings: bcryptjs (the salt
  of a call is drawn from the process's randomness, here indexed by the number of calls
  made so far), jsonwebtoken with the configured secret and expiry, the address check of
  express-validator, whether the n-th call finds the database failing, and the
  draws of \<open>Math.random\<close> (as naturals, scaled where they are used).
\<close>

record claims =
  sub_id :: nat
  sub_username :: string
  sub_role :: string

datatype token_error = TokenInvalid | TokenExpired

record env =
  bcrypt_hash :: "nat \<Rightarrow> string \<Rightarrow> nat \<Rightarrow> string"
  bcrypt_compare :: "string \<Rightarrow> string \<Rightarrow> bool"
  jwt_sign :: "claims \<Rightarrow> int \<Rightarrow> string"
  jwt_verify :: "string \<Rightarrow> int \<Rightarrow> token_error + claims"
  isEmail :: "string \<Rightarrow> bool"
  query_fails :: "nat \<Rightarrow> bool"
  random :: "nat \<Rightarrow> nat"

datatype error = Error string

text \<open>
  \<open>bcrypt.hash(s, rounds)\<close> and \<open>bcrypt.compare(s, hash)\<close> as the code calls them:
  bcryptjs rejects the call ("Illegal arguments") when \<open>s\<close> or \<open>hash\<close> is not a string,
  \<open>undefined\<close> included; the result is then \<open>None\<close>.
\<close>

definition js_bcrypt_hash :: "env \<Rightarrow> nat \<Rightarrow> jsvalue option \<Rightarrow> nat \<Rightarrow> string option" where
  "js_bcrypt_hash e n s rounds =
     (case s of
        Some (JString p) \<Rightarrow> Some (bcrypt_hash e n p rounds)
      | _ \<Rightarrow> None)"

definition js_bcrypt_compare :: "env \<Rightarrow> jsvalue option \<Rightarrow> string option \<Rightarrow> bool option" where
  "js_bcrypt_compare e s hash =
     (case s of
        Some (JString p) \<Rightarrow>
          (case hash of None \<Rightarrow> None | Some h \<Rightarrow> Some (bcrypt_compare e p h))
      | _ \<Rightarrow> None)"

definition logged :: "call \<Rightarrow> world \<Rightarrow> world" where
  "logged c w = w\<lparr>calls := calls w @ [c]\<rparr>"

definition fails_now :: "env \<Rightarrow> world \<Rightarrow> bool" where
  "fails_now e w = query_fails e (length (calls w))"

text \<open>
  The constraints of the table: primary key, the two \<open>UNIQUE\<close> columns and the
  enumerated role column. Keys are compared by equality. A statement whose result
  would break a constraint is rejected and changes nothing.
\<close>

definition constraints_ok :: "row list \<Rightarrow> bool" where
  "constraints_ok t =
     (distinct (map col_id t) \<and> distinct (map col_username t) \<and>
      distinct (map col_email t) \<and> list_all (\<lambda>r. col_role r \<in> set ROLES_values) t)"

text \<open>\<open>SET field = ?\<close> on one row, for the columns the table has.\<close>

definition set_column :: "string \<Rightarrow> string \<Rightarrow> row \<Rightarrow> row" where
  "set_column field v r =
     (if field = ''username'' then r\<lparr>col_username := v\<rparr>
      else if field = ''email'' then r\<lparr>col_email := v\<rparr>
      else if field = ''password'' then r\<lparr>col_password := Some v\<rparr>
      else if field = ''role'' then r\<lparr>col_role := v\<rparr>
      else r)"

fun set_columns :: "(string \<times> string) list \<Rightarrow> row \<Rightarrow> row" where
  "set_columns [] r = r"
| "set_columns (fv # fvs) r = set_columns fvs (set_column (fst fv) (snd fv) r)"

text \<open>\<open>SELECT ... WHERE p\<close>: the matching rows, or the failure of the query.\<close>

definition sql_select :: "env \<Rightarrow> (row \<Rightarrow> bool) \<Rightarrow> world \<Rightarrow> row list option \<times> world" where
  "sql_select e p w =
     (if fails_now e w then (None, logged Select w)
      else (Some (filter p (users_table w)), logged Select w))"

text \<open>\<open>INSERT INTO users (username, email, password, role)\<close>: the new id, or failure.\<close>

definition sql_insert ::
  "env \<Rightarrow> string \<Rightarrow> string \<Rightarrow> string \<Rightarrow> string \<Rightarrow> world \<Rightarrow> nat option \<times> world" where
  "sql_insert e username email hashed role w =
     (let r = \<lparr>col_id = auto_increment w, col_username = username, col_email = email,
               col_password = Some hashed, col_role = role,
               col_created_at = clock w, col_updated_at = clock w\<rparr>;
          t = users_table w @ [r]
      in if fails_now e w \<or> \<not> constraints_ok t then (None, logged Insert w)
         else (Some (auto_increment w),
               logged Insert (w\<lparr>users_table := t, auto_increment := Suc (auto_increment w)\<rparr>)))"

text \<open>\<open>UPDATE users SET ..., updated_at = CURRENT_TIMESTAMP WHERE id = ?\<close>.\<close>

definition sql_update :: "env \<Rightarrow> (string \<times> string) list \<Rightarrow> nat \<Rightarrow> world \<Rightarrow> bool \<times> world" where
  "sql_update e sets userId w =
     (let t = map (\<lambda>r. if col_id r = userId
                        then (set_columns sets r)\<lparr>col_updated_at := clock w\<rparr> else r)
                  (users_table w)
      in if fails_now e w \<or> \<not> constraints_ok t then (False, logged Update w)
         else (True, logged Update (w\<lparr>users_table := t\<rparr>)))"

text \<open>\<open>DELETE FROM users WHERE id = ?\<close>: the number of rows removed, or failure.\<close>

definition sql_delete :: "env \<Rightarrow> nat \<Rightarrow> world \<Rightarrow> nat option \<times> world" where
  "sql_delete e userId w =
     (if fails_now e w then (None, logged Delete w)
      else (Some (length (filter (\<lambda>r. col_id r = userId) (users_table w))),
            logged Delete (w\<lparr>users_table := filter (\<lambda>r. col_id r \<noteq> userId) (users_table w)\<rparr>)))"

subsection \<open>class User\<close>

text \<open>The field \<open>id\<close> is written \<open>uid\<close>.\<close>

record user =
  uid :: nat
  username :: string
  email :: string
  password :: "string option"
  role :: string
  created_at :: int
  updated_at :: int

definition User :: "row \<Rightarrow> user" where
  "User userData =
     \<lparr>uid = col_id userData, username = col_username userData, email = col_email userData,
      password = col_password userData,
      role = (if col_role userData = [] then ROLES_USER else col_role userData),
      created_at = col_created_at userData, updated_at = col_updated_at userData\<rparr>"

definition first_User :: "row list \<Rightarrow> user option" where
  "first_User rows = (case rows of [] \<Rightarrow> None | r # _ \<Rightarrow> Some (User r))"

text \<open>\<open>ORDER BY created_at DESC\<close>; the order among rows of equal creation time is the
  store's choice, here the later row first.\<close>

definition getAllUsers :: "env \<Rightarrow> world \<Rightarrow> (error + user list) \<times> world" where
  "getAllUsers e w =
     (case sql_select e (\<lambda>r. True) w of
        (None, w1) \<Rightarrow> (Inl (Error ''Database query failed: unable to retrieve users''), w1)
      | (Some rows, w1) \<Rightarrow>
          (Inr (map (\<lambda>r. User (r\<lparr>col_password := None\<rparr>))
                  (rev (sort_key col_created_at rows))), w1))"

definition findById :: "env \<Rightarrow> nat \<Rightarrow> world \<Rightarrow> (error + user option) \<times> world" where
  "findById e userId w =
     (case sql_select e (\<lambda>r. col_id r = userId) w of
        (None, w1) \<Rightarrow> (Inl (Error ''Database query failed: unable to find user by ID''), w1)
      | (Some rows, w1) \<Rightarrow> (Inr (first_User rows), w1))"

definition findByUsername :: "env \<Rightarrow> string \<Rightarrow> world \<Rightarrow> (error + user option) \<times> world" where
  "findByUsername e name w =
     (case sql_select e (\<lambda>r. col_username r = name) w of
        (None, w1) \<Rightarrow> (Inl (Error ''Database query failed: unable to find user by username''), w1)
      | (Some rows, w1) \<Rightarrow> (Inr (first_User rows), w1))"

definition findByEmail :: "env \<Rightarrow> string \<Rightarrow> world \<Rightarrow> (error + user option) \<times> world" where
  "findByEmail e addr w =
     (case sql_select e (\<lambda>r. col_email r = addr) w of
        (None, w1) \<Rightarrow> (Inl (Error ''Database query failed: unable to find user by email''), w1)
      | (Some rows, w1) \<Rightarrow> (Inr (first_User rows), w1))"

text \<open>Every failure inside \<open>createUser\<close>, also of the read-back, is rethrown by its
  \<open>catch\<close> under one message.\<close>

definition createUser ::
  "env \<Rightarrow> string \<Rightarrow> string \<Rightarrow> jsvalue option \<Rightarrow> string \<Rightarrow> world \<Rightarrow>
   (error + user option) \<times> world" where
  "createUser e name addr pw rl w =
     (let saltRounds = 12;
          w1 = logged Hash w
      in case js_bcrypt_hash e (length (calls w)) pw saltRounds of
           None \<Rightarrow> (Inl (Error ''Database operation failed: unable to create user''), w1)
         | Some hashedPassword \<Rightarrow>
             (case sql_insert e name addr hashedPassword rl w1 of
                (None, w2) \<Rightarrow>
                  (Inl (Error ''Database operation failed: unable to create user''), w2)
              | (Some insertId, w2) \<Rightarrow>
                  (case findById e insertId w2 of
                     (Inl err, w3) \<Rightarrow>
                       (Inl (Error ''Database operation failed: unable to create user''), w3)
                   | (Inr u, w3) \<Rightarrow> (Inr u, w3))))"

definition allowedFields :: "string list" where
  "allowedFields = [''username'', ''email'']"

text \<open>\<open>updates\<close> is the object's entries in insertion order; an entry exists only for a
  defined value.\<close>

definition updateUser ::
  "env \<Rightarrow> nat \<Rightarrow> (string \<times> string) list \<Rightarrow> world \<Rightarrow> (error + user option) \<times> world" where
  "updateUser e userId updates w =
     (let updateParts = filter (\<lambda>fv. fst fv \<in> set allowedFields) updates
      in if updateParts = [] then
           (case findById e userId w of
              (Inl err, w1) \<Rightarrow>
                (Inl (Error ''Database operation failed: unable to update user''), w1)
            | (Inr u, w1) \<Rightarrow> (Inr u, w1))
         else
           (case sql_update e updateParts userId w of
              (False, w1) \<Rightarrow>
                (Inl (Error ''Database operation failed: unable to update user''), w1)
            | (True, w1) \<Rightarrow>
                (case findById e userId w1 of
                   (Inl err, w2) \<Rightarrow>
                     (Inl (Error ''Database operation failed: unable to update user''), w2)
                 | (Inr u, w2) \<Rightarrow> (Inr u, w2))))"

definition updateUserRole ::
  "env \<Rightarrow> nat \<Rightarrow> string \<Rightarrow> world \<Rightarrow> (error + user option) \<times> world" where
  "updateUserRole e userId newRole w =
     (if newRole \<notin> set ROLES_values then
        (Inl (Error ''Database operation failed: unable to update user role''), w)
      else
        (case sql_update e [(''role'', newRole)] userId w of
           (False, w1) \<Rightarrow>
             (Inl (Error ''Database operation failed: unable to update user role''), w1)
         | (True, w1) \<Rightarrow>
             (case findById e userId w1 of
                (Inl err, w2) \<Rightarrow>
                  (Inl (Error ''Database operation failed: unable to update user role''), w2)
              | (Inr u, w2) \<Rightarrow> (Inr u, w2))))"

definition deleteUser :: "env \<Rightarrow> nat \<Rightarrow> world \<Rightarrow> (error + bool) \<times> world" where
  "deleteUser e userId w =
     (case sql_delete e userId w of
        (None, w1) \<Rightarrow> (Inl (Error ''Database operation failed: unable to delete user''), w1)
      | (Some affectedRows, w1) \<Rightarrow> (Inr (affectedRows > 0), w1))"

text \<open>\<open>bcrypt.compare\<close> throws when the provided password or the stored hash is not a
  string; the \<open>catch\<close> rethrows.\<close>

definition checkPassword :: "env \<Rightarrow> user \<Rightarrow> jsvalue option \<Rightarrow> error + bool" where
  "checkPassword e u providedPassword =
     (case js_bcrypt_compare e providedPassword (password u) of
        None \<Rightarrow> Inl (Error ''Password validation failed'')
      | Some valid \<Rightarrow> Inr valid)"

text \<open>The instance's own properties as JSON members; a property whose value is
  \<open>undefined\<close> is not serialised.\<close>

definition own_properties :: "user \<Rightarrow> (string \<times> json) list" where
  "own_properties u =
     [(''id'', JNum (int (uid u))), (''username'', JStr (username u)),
      (''email'', JStr (email u))] @
     (case password u of None \<Rightarrow> [] | Some p \<Rightarrow> [(''password'', JStr p)]) @
     [(''role'', JStr (role u)), (''created_at'', JNum (created_at u)),
      (''updated_at'', JNum (updated_at u))]"

definition toJSON :: "user \<Rightarrow> json" where
  "toJSON u = JObj (filter (\<lambda>m. fst m \<noteq> ''password'') (own_properties u))"

section \<open>middleware/auth.js\<close>

text \<open>
  The routes require \<open>authenticateToken\<close> and \<open>authorize\<close> from the middleware module,
  which is not among the sources; so is config/default.js, whose secret and expiry are
  part of \<open>jwt_sign\<close> and \<open>jwt_verify\<close>. The module is taken from section 4.4 of the
  specification.
\<close>

text \<open>Modelled from the spec: the answers of the missing middleware. "On any failure
  produces a uniform Unauthorized outcome" (401); "Denial produces Forbidden, distinct
  from Unauthorized" (403).\<close>

definition Unauthorized :: response where
  "Unauthorized = json_response 401 (message_only ''Unauthorized'')"

definition Forbidden :: response where
  "Forbidden = json_response 403 (message_only ''Forbidden'')"

text \<open>Modelled from the spec: \<open>authenticateToken\<close> of the missing middleware.
  "\<open>authenticate(rawToken) -> SubjectClaims\<close>: delegates to the Token Codec; on any
  failure produces a uniform Unauthorized outcome at the boundary."\<close>

definition authenticateToken :: "env \<Rightarrow> request \<Rightarrow> world \<Rightarrow> response + claims" where
  "authenticateToken e req w =
     (case token req of
        None \<Rightarrow> Inl Unauthorized
      | Some t \<Rightarrow>
          (case jwt_verify e t (clock w) of
             Inl err \<Rightarrow> Inl Unauthorized
           | Inr c \<Rightarrow> Inr c))"

text \<open>Modelled from the spec: \<open>authorize\<close> of the missing middleware.
  "\<open>requiredRole = user\<close> is satisfied by any authenticated subject;
  \<open>requiredRole = admin\<close> is satisfied only if \<open>subjectClaims.role == admin\<close>."\<close>

definition authorize :: "string \<Rightarrow> claims \<Rightarrow> bool" where
  "authorize requiredRole c =
     (requiredRole = ROLES_USER \<or> (requiredRole = ROLES_ADMIN \<and> sub_role c = ROLES_ADMIN))"

text \<open>The chains \<open>authenticateToken, handler\<close> and
  \<open>authenticateToken, authorize(role), handler\<close> of a route; the handler sees the
  subject as \<open>req.user\<close>.\<close>

definition authenticated ::
  "env \<Rightarrow> (claims \<Rightarrow> request \<Rightarrow> world \<Rightarrow> response \<times> world) \<Rightarrow>
   request \<Rightarrow> world \<Rightarrow> response \<times> world" where
  "authenticated e handler req w =
     (case authenticateToken e req w of
        Inl denied \<Rightarrow> (denied, w)
      | Inr c \<Rightarrow> handler c req w)"

definition protected ::
  "env \<Rightarrow> string \<Rightarrow> (claims \<Rightarrow> request \<Rightarrow> world \<Rightarrow> response \<times> world) \<Rightarrow>
   request \<Rightarrow> world \<Rightarrow> response \<times> world" where
  "protected e requiredRole handler req w =
     (case authenticateToken e req w of
        Inl denied \<Rightarrow> (denied, w)
      | Inr c \<Rightarrow> if authorize requiredRole c then handler c req w else (Forbidden, w))"

section \<open>Input validation (express-validator)\<close>

text \<open>
  A validator sees the member as a string (\<open>undefined\<close> as the empty string); a chain
  marked \<open>optional()\<close> is skipped when the member is \<open>undefined\<close>. Of an error object
  only its message is kept.
\<close>

definition str_of :: "string option \<Rightarrow> string" where
  "str_of v = (case v of None \<Rightarrow> [] | Some s \<Rightarrow> s)"

definition truthy :: "string option \<Rightarrow> bool" where
  "truthy v = (case v of None \<Rightarrow> False | Some s \<Rightarrow> s \<noteq> [])"

definition notEmpty :: "string \<Rightarrow> bool" where
  "notEmpty s = (s \<noteq> [])"

definition isLength_min :: "nat \<Rightarrow> string \<Rightarrow> bool" where
  "isLength_min n s = (n \<le> length s)"

definition isIn :: "string list \<Rightarrow> string \<Rightarrow> bool" where
  "isIn allowed s = (s \<in> set allowed)"

definition check :: "string option \<Rightarrow> string \<Rightarrow> (string \<Rightarrow> bool) \<Rightarrow> json list" where
  "check v msg valid = (if valid (str_of v) then [] else [JObj [(''msg'', JStr msg)]])"

definition check_optional :: "string option \<Rightarrow> string \<Rightarrow> (string \<Rightarrow> bool) \<Rightarrow> json list" where
  "check_optional v msg valid = (case v of None \<Rightarrow> [] | Some s \<Rightarrow> check v msg valid)"

text \<open>The password member as the validators read it, and as a condition.\<close>

definition password_text :: "body \<Rightarrow> string option" where
  "password_text b = map_option shown (body_password b)"

definition password_truthy :: "body \<Rightarrow> bool" where
  "password_truthy b = (case body_password b of None \<Rightarrow> False | Some v \<Rightarrow> truthy_value v)"

definition invalid_input :: "string \<Rightarrow> json list \<Rightarrow> response" where
  "invalid_input m errors =
     json_response 400 (JObj [(''message'', JStr m), (''errors'', JArr errors)])"

section \<open>routes/auth.js\<close>

definition tokenPayload :: "user \<Rightarrow> claims" where
  "tokenPayload u = \<lparr>sub_id = uid u, sub_username = username u, sub_role = role u\<rparr>"

definition session_body :: "env \<Rightarrow> string \<Rightarrow> user \<Rightarrow> world \<Rightarrow> json" where
  "session_body e m u w =
     JObj [(''message'', JStr m),
           (''token'', JStr (jwt_sign e (tokenPayload u) (clock w))),
           (''user'', JObj [(''id'', JNum (int (uid u))), (''username'', JStr (username u)),
                           (''email'', JStr (email u)), (''role'', JStr (role u))])]"

definition register_checks :: "env \<Rightarrow> body \<Rightarrow> json list" where
  "register_checks e b =
     check (body_username b) ''Username is required'' notEmpty @
     check (body_email b) ''Please provide a valid email'' (isEmail e) @
     check (password_text b) ''Password must be at least 6 characters'' (isLength_min 6)"

text \<open>POST /api/auth/register. The body's \<open>role\<close> member is never read.\<close>

definition post_register :: "env \<Rightarrow> request \<Rightarrow> world \<Rightarrow> response \<times> world" where
  "post_register e req w =
     (let errors = register_checks e (body req) in
      if errors \<noteq> [] then (invalid_input ''Please check your input'' errors, w)
      else
        let failed = json_response 500 (message_only ''Registration failed, please try again'')
        in case findByUsername e (str_of (body_username (body req))) w of
             (Inl err, w1) \<Rightarrow> (failed, w1)
           | (Inr (Some existingUserByUsername), w1) \<Rightarrow>
               (json_response 400 (message_only ''Username already taken''), w1)
           | (Inr None, w1) \<Rightarrow>
               (case findByEmail e (str_of (body_email (body req))) w1 of
                  (Inl err, w2) \<Rightarrow> (failed, w2)
                | (Inr (Some existingUserByEmail), w2) \<Rightarrow>
                    (json_response 400 (message_only ''Email already registered''), w2)
                | (Inr None, w2) \<Rightarrow>
                    (case createUser e (str_of (body_username (body req)))
                            (str_of (body_email (body req)))
                            (body_password (body req)) ROLES_USER w2 of
                       (Inl err, w3) \<Rightarrow> (failed, w3)
                     | (Inr None, w3) \<Rightarrow> (failed, w3)
                     | (Inr (Some newUser), w3) \<Rightarrow>
                         (json_response 201
                            (session_body e ''Registration successful'' newUser w3), w3))))"

definition login_checks :: "body \<Rightarrow> json list" where
  "login_checks b =
     check (body_username b) ''Username is required'' notEmpty @
     check (password_text b) ''Password is required'' notEmpty"

text \<open>POST /api/auth/login.\<close>

definition post_login :: "env \<Rightarrow> request \<Rightarrow> world \<Rightarrow> response \<times> world" where
  "post_login e req w =
     (let errors = login_checks (body req) in
      if errors \<noteq> [] then (invalid_input ''Please provide username and password'' errors, w)
      else
        let failed = json_response 500 (message_only ''Login failed, please try again'')
        in case findByUsername e (str_of (body_username (body req))) w of
             (Inl err, w1) \<Rightarrow> (failed, w1)
           | (Inr None, w1) \<Rightarrow>
               (json_response 400 (message_only ''Invalid username or password''), w1)
           | (Inr (Some u), w1) \<Rightarrow>
               (case checkPassword e u (body_password (body req)) of
                  Inl err \<Rightarrow> (failed, w1)
                | Inr isPasswordValid \<Rightarrow>
                    if \<not> isPasswordValid then
                      (json_response 400 (message_only ''Invalid username or password''), w1)
                    else (json_response 200 (session_body e ''Login successful'' u w1), w1)))"

text \<open>GET /api/auth/me.\<close>

definition me_handler :: "env \<Rightarrow> claims \<Rightarrow> request \<Rightarrow> world \<Rightarrow> response \<times> world" where
  "me_handler e c req w =
     (case findById e (sub_id c) w of
        (Inl err, w1) \<Rightarrow> (json_response 500 (message_only ''Could not retrieve profile''), w1)
      | (Inr None, w1) \<Rightarrow> (json_response 404 (message_only ''User not found''), w1)
      | (Inr (Some u), w1) \<Rightarrow>
          (json_response 200
             (JObj [(''message'', JStr ''Profile retrieved successfully''),
                    (''user'', toJSON u)]), w1))"

definition get_me :: "env \<Rightarrow> request \<Rightarrow> world \<Rightarrow> response \<times> world" where
  "get_me e = authenticated e (me_handler e)"

section \<open>routes/users.js\<close>

text \<open>
  \<open>res.json\<close> serialises a \<open>User\<close> instance, at any depth of the value it is given,
  through the instance's \<open>toJSON\<close>; \<open>null\<close> stays \<open>null\<close>.
\<close>

definition json_of_user :: "user option \<Rightarrow> json" where
  "json_of_user v = (case v of None \<Rightarrow> JNull | Some u \<Rightarrow> toJSON u)"

text \<open>GET /api/users.\<close>

definition list_handler :: "env \<Rightarrow> claims \<Rightarrow> request \<Rightarrow> world \<Rightarrow> response \<times> world" where
  "list_handler e c req w =
     (case getAllUsers e w of
        (Inl err, w1) \<Rightarrow> (json_response 500 (message_only ''Could not retrieve users''), w1)
      | (Inr users, w1) \<Rightarrow> (json_response 200 (JArr (map toJSON users)), w1))"

definition get_users :: "env \<Rightarrow> request \<Rightarrow> world \<Rightarrow> response \<times> world" where
  "get_users e = protected e ROLES_ADMIN (list_handler e)"

text \<open>GET /api/users/:id.\<close>

definition get_handler :: "env \<Rightarrow> claims \<Rightarrow> request \<Rightarrow> world \<Rightarrow> response \<times> world" where
  "get_handler e c req w =
     (case findById e (params_id req) w of
        (Inl err, w1) \<Rightarrow> (json_response 500 (message_only ''Could not retrieve user''), w1)
      | (Inr None, w1) \<Rightarrow> (json_response 404 (message_only ''User not found''), w1)
      | (Inr (Some u), w1) \<Rightarrow> (json_response 200 (toJSON u), w1))"

definition get_user :: "env \<Rightarrow> request \<Rightarrow> world \<Rightarrow> response \<times> world" where
  "get_user e = protected e ROLES_ADMIN (get_handler e)"

text \<open>POST /api/users.\<close>

definition create_checks :: "env \<Rightarrow> body \<Rightarrow> json list" where
  "create_checks e b =
     check (body_username b) ''Username is required'' notEmpty @
     check (body_email b) ''Please provide a valid email'' (isEmail e) @
     check (password_text b) ''Password must be at least 6 characters'' (isLength_min 6) @
     check (body_role b) ''Role must be either admin or user'' (isIn [''admin'', ''user''])"

definition create_handler :: "env \<Rightarrow> claims \<Rightarrow> request \<Rightarrow> world \<Rightarrow> response \<times> world" where
  "create_handler e c req w =
     (let errors = create_checks e (body req) in
      if errors \<noteq> [] then (invalid_input ''Invalid input data'' errors, w)
      else
        let failed = json_response 500 (message_only ''Could not create user'')
        in case findByUsername e (str_of (body_username (body req))) w of
             (Inl err, w1) \<Rightarrow> (failed, w1)
           | (Inr (Some existingUserByUsername), w1) \<Rightarrow>
               (json_response 400 (message_only ''Username already taken''), w1)
           | (Inr None, w1) \<Rightarrow>
               (case findByEmail e (str_of (body_email (body req))) w1 of
                  (Inl err, w2) \<Rightarrow> (failed, w2)
                | (Inr (Some existingUserByEmail), w2) \<Rightarrow>
                    (json_response 400 (message_only ''Email already registered''), w2)
                | (Inr None, w2) \<Rightarrow>
                    (case createUser e (str_of (body_username (body req)))
                            (str_of (body_email (body req)))
                            (body_password (body req))
                            (str_of (body_role (body req))) w2 of
                       (Inl err, w3) \<Rightarrow> (failed, w3)
                     | (Inr newUser, w3) \<Rightarrow>
                         (json_response 201
                            (JObj [(''message'', JStr ''User created successfully''),
                                   (''user'', json_of_user newUser)]), w3))))"

definition post_user :: "env \<Rightarrow> request \<Rightarrow> world \<Rightarrow> response \<times> world" where
  "post_user e = protected e ROLES_ADMIN (create_handler e)"

text \<open>PUT /api/users/:id.\<close>

definition update_checks :: "env \<Rightarrow> body \<Rightarrow> json list" where
  "update_checks e b =
     check_optional (body_username b) ''Username cannot be empty'' notEmpty @
     check_optional (body_email b) ''Please provide a valid email'' (isEmail e) @
     check_optional (password_text b) ''Password must be at least 6 characters''
       (isLength_min 6) @
     check_optional (body_role b) ''Role must be either admin or user''
       (isIn [''admin'', ''user''])"

text \<open>The block of the handler that prepares the \<open>updates\<close> object: the members of
  the body that are set, the password replaced by its hash (10 rounds). A rejected
  \<open>bcrypt.hash\<close> throws into the handler's \<open>catch\<close>.\<close>

definition prepare_updates ::
  "env \<Rightarrow> body \<Rightarrow> world \<Rightarrow> (error + (string \<times> string) list) \<times> world" where
  "prepare_updates e b w =
     (let updates =
            (if truthy (body_username b) then [(''username'', str_of (body_username b))]
             else []) @
            (if truthy (body_email b) then [(''email'', str_of (body_email b))] else [])
      in if password_truthy b
         then (case js_bcrypt_hash e (length (calls w)) (body_password b) 10 of
                 None \<Rightarrow> (Inl (Error ''Illegal arguments''), logged Hash w)
               | Some hashedPassword \<Rightarrow>
                   (Inr (updates @ [(''password'', hashedPassword)]), logged Hash w))
         else (Inr updates, w))"

definition update_handler :: "env \<Rightarrow> claims \<Rightarrow> request \<Rightarrow> world \<Rightarrow> response \<times> world" where
  "update_handler e c req w =
     (let errors = update_checks e (body req) in
      if errors \<noteq> [] then (invalid_input ''Invalid input data'' errors, w)
      else
        let failed = json_response 500 (message_only ''Could not update user'');
            userId = params_id req
        in case findById e userId w of
             (Inl err, w1) \<Rightarrow> (failed, w1)
           | (Inr None, w1) \<Rightarrow> (json_response 404 (message_only ''User not found''), w1)
           | (Inr (Some existingUser), w1) \<Rightarrow>
              (if uid existingUser = sub_id c \<and> truthy (body_role (body req)) \<and>
                  str_of (body_role (body req)) \<noteq> ROLES_ADMIN
               then (json_response 400
                       (message_only ''You cannot remove your own admin privileges''), w1)
               else
                 case prepare_updates e (body req) w1 of
                   (Inl err, w2) \<Rightarrow> (failed, w2)
                 | (Inr updates, w2) \<Rightarrow>
                   (case updateUser e userId updates w2 of
                      (Inl err, w3) \<Rightarrow> (failed, w3)
                    | (Inr updatedUser, w3) \<Rightarrow>
                       (if truthy (body_role (body req)) then
                          (case updateUserRole e userId (str_of (body_role (body req))) w3 of
                             (Inl err, w4) \<Rightarrow> (failed, w4)
                           | (Inr roleUpdatedUser, w4) \<Rightarrow>
                               (json_response 200
                                  (JObj [(''message'', JStr ''User updated successfully''),
                                         (''user'', json_of_user roleUpdatedUser)]), w4))
                        else
                          (json_response 200
                             (JObj [(''message'', JStr ''User updated successfully''),
                                    (''user'', json_of_user updatedUser)]), w3)))))"

definition put_user :: "env \<Rightarrow> request \<Rightarrow> world \<Rightarrow> response \<times> world" where
  "put_user e = protected e ROLES_ADMIN (update_handler e)"

text \<open>DELETE /api/users/:id.\<close>

definition delete_handler :: "env \<Rightarrow> claims \<Rightarrow> request \<Rightarrow> world \<Rightarrow> response \<times> world" where
  "delete_handler e c req w =
     (let failed = json_response 500 (message_only ''Could not delete user'');
          userId = params_id req
      in case findById e userId w of
           (Inl err, w1) \<Rightarrow> (failed, w1)
         | (Inr None, w1) \<Rightarrow> (json_response 404 (message_only ''User not found''), w1)
         | (Inr (Some u), w1) \<Rightarrow>
             if uid u = sub_id c
             then (json_response 400 (message_only ''You cannot delete your own account''), w1)
             else
               (case deleteUser e userId w1 of
                  (Inl err, w2) \<Rightarrow> (failed, w2)
                | (Inr deleted, w2) \<Rightarrow>
                    if \<not> deleted
                    then (json_response 500 (message_only ''Failed to delete user''), w2)
                    else (json_response 200
                            (message_only
                               (''User '' @ [CHR 0x27] @ username u @ [CHR 0x27] @
                                '' deleted successfully'')), w2)))"

definition delete_user :: "env \<Rightarrow> request \<Rightarrow> world \<Rightarrow> response \<times> world" where
  "delete_user e = protected e ROLES_ADMIN (delete_handler e)"

section \<open>server.js\<close>

text \<open>GET /api/dashboard: no middleware stands before the handler.\<close>

definition activity :: "string \<Rightarrow> int \<Rightarrow> string \<Rightarrow> json" where
  "activity a t d = JObj [(''action'', JStr a), (''timestamp'', JNum t), (''description'', JStr d)]"

definition get_dashboard :: "env \<Rightarrow> request \<Rightarrow> world \<Rightarrow> response \<times> world" where
  "get_dashboard e req w =
     (case getAllUsers e w of
        (Inl err, w1) \<Rightarrow>
          (json_response 500
             (JObj [(''error'', JStr ''Internal server error''),
                    (''message'', JStr ''Unable to retrieve dashboard statistics'')]), w1)
      | (Inr users, w1) \<Rightarrow>
          (json_response 200
             (JObj [(''stats'',
                     JObj [(''totalUsers'', JNum (int (length users))),
                           (''activeUsers'', JNum (int (random e 0 mod 50 + 10))),
                           (''newUsersToday'', JNum (int (random e 1 mod 10)))]),
                    (''recentActivity'',
                     JArr [activity ''User login'' (clock w1 - 120000)
                             ''User authentication event'',
                           activity ''Profile updated'' (clock w1 - 3600000)
                             ''User profile modification'',
                           activity ''New user registered'' (clock w1 - 86400000)
                             ''New user account created''])]), w1))"

text \<open>The member of an object under a name.\<close>

definition member :: "string \<Rightarrow> json \<Rightarrow> json option" where
  "member k j = (case j of JObj ms \<Rightarrow> map_of ms k | _ \<Rightarrow> None)"

section \<open>A sample deployment\<close>

text \<open>
  The accounts that config/db-init.js creates first (\<open>admin\<close> and \<open>john_doe\<close>), with
  stand-ins for the libraries: a hash that prefixes the password, tokens that are
  looked up in a table, an address check that looks for the at sign, and a database that
  answers every call.
\<close>

definition sample_env :: env where
  "sample_env =
     \<lparr>bcrypt_hash = (\<lambda>n pw rounds. ''#'' @ pw),
      bcrypt_compare = (\<lambda>pw h. h = ''#'' @ pw),
      jwt_sign = (\<lambda>c t. ''token-of-'' @ sub_username c),
      jwt_verify = (\<lambda>t now.
         if t = ''token-of-admin''
         then Inr \<lparr>sub_id = 1, sub_username = ''admin'', sub_role = ''admin''\<rparr>
         else if t = ''token-of-john_doe''
         then Inr \<lparr>sub_id = 2, sub_username = ''john_doe'', sub_role = ''user''\<rparr>
         else Inl TokenInvalid),
      isEmail = (\<lambda>s. CHR ''@'' \<in> set s),
      query_fails = (\<lambda>n. False),
      random = (\<lambda>n. 7)\<rparr>"

definition sample_world :: world where
  "sample_world =
     \<lparr>users_table =
        [\<lparr>col_id = 1, col_username = ''admin'', col_email = ''admin@example.com'',
          col_password = Some ''#admin123'', col_role = ''admin'',
          col_created_at = 1000, col_updated_at = 1000\<rparr>,
         \<lparr>col_id = 2, col_username = ''john_doe'', col_email = ''john@example.com'',
          col_password = Some ''#password123'', col_role = ''user'',
          col_created_at = 2000, col_updated_at = 2000\<rparr>],
      auto_increment = 3, clock = 100000000, calls = []\<rparr>"

definition no_body :: body where
  "no_body = \<lparr>body_username = None, body_email = None, body_password = None,
               body_role = None\<rparr>"

definition as_admin :: "nat \<Rightarrow> body \<Rightarrow> request" where
  "as_admin i b = \<lparr>token = Some ''token-of-admin'', params_id = i, body = b\<rparr>"

definition as_john :: "nat \<Rightarrow> body \<Rightarrow> request" where
  "as_john i b = \<lparr>token = Some ''token-of-john_doe'', params_id = i, body = b\<rparr>"

definition anonymous :: "body \<Rightarrow> request" where
  "anonymous b = \<lparr>token = None, params_id = 0, body = b\<rparr>"

definition role_only :: "string \<Rightarrow> body" where
  "role_only r = \<lparr>body_username = None, body_email = None, body_password = None,
                   body_role = Some r\<rparr>"

definition password_only :: "string \<Rightarrow> body" where
  "password_only p = \<lparr>body_username = None, body_email = None,
                       body_password = Some (JString p), body_role = None\<rparr>"

definition login_with :: "string \<Rightarrow> jsvalue \<Rightarrow> body" where
  "login_with n v = \<lparr>body_username = Some n, body_email = None, body_password = Some v,
                      body_role = None\<rparr>"

definition credentials :: "string \<Rightarrow> string \<Rightarrow> body" where
  "credentials n p = login_with n (JString p)"

definition account :: "string \<Rightarrow> string \<Rightarrow> string \<Rightarrow> string option \<Rightarrow> body" where
  "account n a p r = \<lparr>body_username = Some n, body_email = Some a,
                       body_password = Some (JString p), body_role = r\<rparr>"

text \<open>The sample world after \<open>alice\<close> has registered, asking for the role \<open>admin\<close>.\<close>

definition alice_registers :: request where
  "alice_registers = anonymous (account ''alice'' ''alice@x.com'' ''secret1'' (Some ''admin''))"


section \<open>Auxiliary notions\<close>

text \<open>The row that the \<open>INSERT\<close> of \<open>createUser\<close> adds when it is accepted.\<close>

definition new_row :: "env \<Rightarrow> string \<Rightarrow> string \<Rightarrow> string \<Rightarrow> string \<Rightarrow> world \<Rightarrow> row" where
  "new_row e name addr pw rl w =
     \<lparr>col_id = auto_increment w, col_username = name, col_email = addr,
      col_password = Some (bcrypt_hash e (length (calls w)) pw 12), col_role = rl,
      col_created_at = clock w, col_updated_at = clock w\<rparr>"

section \<open>Basic facts about the store and the model\<close>

lemma logged_simps [simp]:
  "users_table (logged c w) = users_table w"
  "auto_increment (logged c w) = auto_increment w"
  "clock (logged c w) = clock w"
  "calls (logged c w) = calls w @ [c]"
  by (simp_all add: logged_def)

lemma findById_eq:
  "findById e i w =
     (if fails_now e w then Inl (Error ''Database query failed: unable to find user by ID'')
      else Inr (first_User (filter (\<lambda>r. col_id r = i) (users_table w))), logged Select w)"
  by (simp add: findById_def sql_select_def)

lemma findByUsername_eq:
  "findByUsername e n w =
     (if fails_now e w
      then Inl (Error ''Database query failed: unable to find user by username'')
      else Inr (first_User (filter (\<lambda>r. col_username r = n) (users_table w))),
      logged Select w)"
  by (simp add: findByUsername_def sql_select_def)

lemma findByEmail_eq:
  "findByEmail e n w =
     (if fails_now e w then Inl (Error ''Database query failed: unable to find user by email'')
      else Inr (first_User (filter (\<lambda>r. col_email r = n) (users_table w))),
      logged Select w)"
  by (simp add: findByEmail_def sql_select_def)

lemma fails_now_logged [simp]:
  "fails_now e (logged c w) = query_fails e (Suc (length (calls w)))"
  by (simp add: fails_now_def)

lemma first_User_None: "first_User rows = None \<longleftrightarrow> rows = []"
  by (simp add: first_User_def split: list.splits)


lemma filter_id_empty: "filter (\<lambda>r. col_id r = i) t = [] \<longleftrightarrow> i \<notin> col_id ` set t"
  by (auto simp: filter_empty_conv)



lemma first_User_by_id:
  assumes "first_User (filter (\<lambda>r. col_id r = i) t) = Some u"
  shows "uid u = i"
proof -
  from assms obtain r rs where f: "filter (\<lambda>r. col_id r = i) t = r # rs" and u: "u = User r"
    by (auto simp: first_User_def split: list.splits)
  from f have "r \<in> set (filter (\<lambda>r. col_id r = i) t)" by simp
  then have "col_id r = i" by simp
  with u show ?thesis by (simp add: User_def)
qed

lemmas model_defs =
  post_register_def register_checks_def post_login_def login_checks_def check_def
  check_optional_def str_of_def truthy_def notEmpty_def isLength_min_def isIn_def
  findByUsername_def findByEmail_def findById_def getAllUsers_def sql_select_def
  sql_insert_def sql_update_def sql_delete_def createUser_def updateUser_def
  updateUserRole_def deleteUser_def checkPassword_def allowedFields_def prepare_updates_def
  js_bcrypt_hash_def js_bcrypt_compare_def password_text_def password_truthy_def
  fails_now_def logged_def constraints_ok_def ROLES_values_def ROLES_ADMIN_def ROLES_USER_def
  first_User_def User_def json_response_def message_only_def invalid_input_def
  session_body_def tokenPayload_def

lemmas sample_defs =
  sample_env_def sample_world_def anonymous_def account_def as_admin_def as_john_def
  no_body_def role_only_def password_only_def credentials_def login_with_def
  alice_registers_def

lemma sample_admin_row: "1 \<in> col_id ` set (users_table sample_world)"
  by (simp add: sample_world_def)

lemma sample_answers: "\<not> fails_now sample_env w"
  by (simp add: fails_now_def sample_env_def)


section \<open>The role gate\<close>

lemma protected_user:
  assumes "token req = Some t" and "jwt_verify e t (clock w) = Inr c"
    and "sub_role c = ROLES_USER"
  shows "protected e ROLES_ADMIN h req w = (Forbidden, w)"
  using assms
  by (simp add: protected_def authenticateToken_def authorize_def ROLES_USER_def
      ROLES_ADMIN_def)

lemma protected_admin:
  assumes "token req = Some t" and "jwt_verify e t (clock w) = Inr c"
    and "sub_role c = ROLES_ADMIN"
  shows "protected e ROLES_ADMIN h req w = h c req w"
  using assms by (simp add: protected_def authenticateToken_def authorize_def)

lemma sample_admin_token:
  "token (as_admin i b) = Some ''token-of-admin''"
  "jwt_verify sample_env ''token-of-admin'' (clock w) =
     Inr \<lparr>sub_id = 1, sub_username = ''admin'', sub_role = ''admin''\<rparr>"
  by (simp_all add: as_admin_def sample_env_def)

lemma sample_john_token:
  "token (as_john i b) = Some ''token-of-john_doe''"
  "jwt_verify sample_env ''token-of-john_doe'' (clock w) =
     Inr \<lparr>sub_id = 2, sub_username = ''john_doe'', sub_role = ''user''\<rparr>"
  by (simp_all add: as_john_def sample_env_def)

text \<open>
  C1. A request to one of the five user-management routes whose token validates to a
  subject of role \<open>user\<close> is answered with Forbidden (status 403, which is not the
  Unauthorized answer of status 401), and the world is the one before the request: no
  call reached the store, so no record was read, returned or changed. When the subject's
  role is \<open>admin\<close> the gate lets the request through, and the route answers what its
  handler answers.
\<close>

theorem user_role_is_forbidden:
  assumes "token req = Some t" and "jwt_verify e t (clock w) = Inr c"
  shows "(sub_role c = ROLES_USER \<longrightarrow>
            get_users e req w = (Forbidden, w) \<and> get_user e req w = (Forbidden, w) \<and>
            post_user e req w = (Forbidden, w) \<and> put_user e req w = (Forbidden, w) \<and>
            delete_user e req w = (Forbidden, w)) \<and>
         status Forbidden = 403 \<and> status Unauthorized = 401 \<and> Forbidden \<noteq> Unauthorized \<and>
         (sub_role c = ROLES_ADMIN \<longrightarrow>
            authorize ROLES_ADMIN c \<and>
            get_users e req w = list_handler e c req w \<and>
            get_user e req w = get_handler e c req w \<and>
            post_user e req w = create_handler e c req w \<and>
            put_user e req w = update_handler e c req w \<and>
            delete_user e req w = delete_handler e c req w)"
  using assms
  by (simp add: get_users_def get_user_def post_user_def put_user_def delete_user_def
      protected_user protected_admin Forbidden_def Unauthorized_def json_response_def
      authorize_def)

theorem user_role_is_forbidden_witness:
  "get_users sample_env (as_john 1 no_body) sample_world = (Forbidden, sample_world) \<and>
   delete_user sample_env (as_john 1 no_body) sample_world = (Forbidden, sample_world) \<and>
   get_users sample_env (as_admin 1 no_body) sample_world =
     list_handler sample_env \<lparr>sub_id = 1, sub_username = ''admin'', sub_role = ''admin''\<rparr>
       (as_admin 1 no_body) sample_world"
  using user_role_is_forbidden [OF sample_john_token(1) sample_john_token(2),
      of 1 no_body sample_world]
    user_role_is_forbidden [OF sample_admin_token(1) sample_admin_token(2),
      of 1 no_body sample_world]
  by (simp add: ROLES_USER_def ROLES_ADMIN_def)

section \<open>The guards of the update and delete routes\<close>

lemma update_checks_role:
  assumes "update_checks e b = []" and "body_role b = Some r"
  shows "r = ''admin'' \<or> r = ''user''"
proof -
  from assms(1) have "check_optional (body_role b) ''Role must be either admin or user''
       (isIn [''admin'', ''user'']) = []"
    by (simp add: update_checks_def)
  with assms(2) show ?thesis
    by (simp add: check_optional_def check_def isIn_def str_of_def split: if_splits)
qed

text \<open>
  C4. An administrator (a validated token of role \<open>admin\<close>) sends the update request
  for the own id with a role member other than \<open>admin\<close>. Whatever else the request
  holds, the table of users after the request is the table before it, and the only call
  that can have been made is the lookup of the target: no \<open>UPDATE\<close> is sent and no hash
  is computed. When the body passes the route's validators, the lookup is answered and
  the administrator's row exists, the answer is the domain error of status 400, "You
  cannot remove your own admin privileges".
\<close>

theorem self_demotion_is_rejected:
  assumes "token req = Some t" and "jwt_verify e t (clock w) = Inr c"
    and "sub_role c = ROLES_ADMIN" and "params_id req = sub_id c"
    and "body_role (body req) = Some r" and "r \<noteq> ROLES_ADMIN"
  shows "users_table (snd (put_user e req w)) = users_table w \<and>
         snd (put_user e req w) =
           (if update_checks e (body req) = [] then logged Select w else w) \<and>
         (update_checks e (body req) = [] \<and> \<not> fails_now e w \<and>
          sub_id c \<in> col_id ` set (users_table w) \<longrightarrow>
            fst (put_user e req w) =
              json_response 400
                (message_only ''You cannot remove your own admin privileges''))"
proof -
  have d: "put_user e req w = update_handler e c req w"
    using assms by (simp add: put_user_def protected_admin)
  show ?thesis
  proof (cases "update_checks e (body req) = []")
    case False
    then show ?thesis by (simp add: d update_handler_def)
  next
    case valid: True
    from valid assms(5) have "r = ''admin'' \<or> r = ''user''" by (rule update_checks_role)
    with assms(6) have r: "r = ''user''" by (simp add: ROLES_ADMIN_def)
    have guard: "truthy (body_role (body req)) \<and> str_of (body_role (body req)) \<noteq> ROLES_ADMIN"
      using assms(5) r by (simp add: truthy_def str_of_def ROLES_ADMIN_def)
    show ?thesis
    proof (cases "fails_now e w")
      case True
      then show ?thesis using valid by (simp add: d update_handler_def findById_eq)
    next
      case False
      show ?thesis
      proof (cases "first_User (filter (\<lambda>r. col_id r = sub_id c) (users_table w))")
        case None
        then have "sub_id c \<notin> col_id ` set (users_table w)"
          by (simp add: first_User_None filter_id_empty)
        with None False valid show ?thesis using assms(4)
          by (simp add: d update_handler_def findById_eq)
      next
        case (Some u)
        then have "uid u = sub_id c" by (rule first_User_by_id)
        with Some False valid guard show ?thesis using assms(4)
          by (simp add: d update_handler_def findById_eq)
      qed
    qed
  qed
qed

theorem self_demotion_is_rejected_witness:
  "put_user sample_env (as_admin 1 (role_only ''user'')) sample_world =
     (json_response 400 (message_only ''You cannot remove your own admin privileges''),
      logged Select sample_world) \<and>
   users_table (snd (put_user sample_env (as_admin 1 (role_only ''user'')) sample_world)) =
     users_table sample_world"
proof -
  have v: "update_checks sample_env (body (as_admin 1 (role_only ''user''))) = []"
    by (simp add: update_checks_def check_optional_def check_def isIn_def str_of_def
        password_text_def as_admin_def role_only_def)
  have b: "body_role (body (as_admin 1 (role_only ''user''))) = Some ''user''"
    by (simp add: as_admin_def role_only_def)
  have p: "params_id (as_admin 1 (role_only ''user'')) = 1"
    by (simp add: as_admin_def)
  show ?thesis
    using self_demotion_is_rejected [where req = "as_admin 1 (role_only ''user'')"
        and e = sample_env and w = sample_world and r = "''user''",
        OF sample_admin_token(1) sample_admin_token(2)]
      v b p sample_admin_row sample_answers [of sample_world]
    by (simp add: ROLES_ADMIN_def prod_eq_iff)
qed

text \<open>
  C5. An administrator sends the delete request for the own id. The only call made is
  the lookup of the target, so no \<open>DELETE\<close> reaches the store and the table of users is
  the one before the request. When the lookup is answered and the administrator's row
  exists, the answer is the domain error of status 400, "You cannot delete your own
  account".
\<close>

theorem self_deletion_is_rejected:
  assumes "token req = Some t" and "jwt_verify e t (clock w) = Inr c"
    and "sub_role c = ROLES_ADMIN" and "params_id req = sub_id c"
  shows "snd (delete_user e req w) = logged Select w \<and>
         users_table (snd (delete_user e req w)) = users_table w \<and>
         (\<not> fails_now e w \<and> sub_id c \<in> col_id ` set (users_table w) \<longrightarrow>
            fst (delete_user e req w) =
              json_response 400 (message_only ''You cannot delete your own account''))"
proof -
  have d: "delete_user e req w = delete_handler e c req w"
    using assms by (simp add: delete_user_def protected_admin)
  show ?thesis
  proof (cases "fails_now e w")
    case True
    then show ?thesis using assms(4) by (simp add: d delete_handler_def findById_eq)
  next
    case False
    show ?thesis
    proof (cases "first_User (filter (\<lambda>r. col_id r = sub_id c) (users_table w))")
      case None
      then have "sub_id c \<notin> col_id ` set (users_table w)"
        by (simp add: first_User_None filter_id_empty)
      with None False show ?thesis using assms(4)
        by (simp add: d delete_handler_def findById_eq)
    next
      case (Some u)
      then have "uid u = sub_id c" by (rule first_User_by_id)
      with Some False show ?thesis using assms(4)
        by (simp add: d delete_handler_def findById_eq)
    qed
  qed
qed

theorem self_deletion_is_rejected_witness:
  "delete_user sample_env (as_admin 1 no_body) sample_world =
     (json_response 400 (message_only ''You cannot delete your own account''),
      logged Select sample_world) \<and>
   users_table (snd (delete_user sample_env (as_admin 1 no_body) sample_world)) =
     users_table sample_world"
proof -
  have p: "params_id (as_admin 1 no_body) = 1"
    by (simp add: as_admin_def)
  show ?thesis
    using self_deletion_is_rejected [where req = "as_admin 1 no_body"
        and e = sample_env and w = sample_world,
        OF sample_admin_token(1) sample_admin_token(2)]
      p sample_admin_row sample_answers [of sample_world]
    by (simp add: ROLES_ADMIN_def prod_eq_iff)
qed

section \<open>Registration\<close>

lemma new_row_simps [simp]:
  "col_role (new_row e name addr pw rl w) = rl"
  "col_username (new_row e name addr pw rl w) = name"
  "col_email (new_row e name addr pw rl w) = addr"
  "col_id (new_row e name addr pw rl w) = auto_increment w"
  "col_password (new_row e name addr pw rl w) = Some (bcrypt_hash e (length (calls w)) pw 12)"
  by (simp_all add: new_row_def)

lemma filter_new_id:
  assumes "distinct (map col_id (t @ [r]))"
  shows "filter (\<lambda>x. col_id x = col_id r) (t @ [r]) = [r]"
proof -
  from assms have "col_id r \<notin> col_id ` set t" by auto
  then have "filter (\<lambda>x. col_id x = col_id r) t = []"
    by (simp add: filter_id_empty)
  then show ?thesis by simp
qed

text \<open>\<open>createUser\<close> either leaves the table as it is and throws, or appends the new row;
  the user it returns is read back from that row.\<close>

lemma js_bcrypt_hash_Some:
  "js_bcrypt_hash e n s rounds = Some h \<longleftrightarrow>
   (\<exists>p. s = Some (JString p) \<and> h = bcrypt_hash e n p rounds)"
  by (auto simp: js_bcrypt_hash_def split: option.splits jsvalue.splits)

lemma createUser_cases:
  assumes "createUser e name addr pw rl w = (res, w')"
  shows "(users_table w' = users_table w \<and> (\<exists>err. res = Inl err)) \<or>
         (\<exists>p. pw = Some (JString p) \<and>
              users_table w' = users_table w @ [new_row e name addr p rl w] \<and>
              (res = Inr (Some (User (new_row e name addr p rl w))) \<or>
               (\<exists>err. res = Inl err)))"
proof (cases "js_bcrypt_hash e (length (calls w)) pw 12")
  case None
  then show ?thesis using assms by (auto simp: createUser_def Let_def)
next
  case (Some h)
  then obtain p where pw: "pw = Some (JString p)"
    and h: "h = bcrypt_hash e (length (calls w)) p 12"
    by (auto simp: js_bcrypt_hash_Some)
  from Some pw have hs: "js_bcrypt_hash e (length (calls w)) (Some (JString p)) 12 = Some h"
    by simp
  show ?thesis
  proof (cases "fails_now e (logged Hash w) \<or>
                \<not> constraints_ok (users_table w @ [new_row e name addr p rl w])")
    case True
    then show ?thesis using assms h
      by (auto simp: pw hs createUser_def sql_insert_def Let_def new_row_def)
  next
    case False
    then have "constraints_ok (users_table w @ [new_row e name addr p rl w])" by simp
    then have "distinct (map col_id (users_table w @ [new_row e name addr p rl w]))"
      by (simp add: constraints_ok_def)
    then have f: "filter (\<lambda>x. col_id x = auto_increment w)
                    (users_table w @ [new_row e name addr p rl w]) =
                  [new_row e name addr p rl w]"
      using filter_new_id [of "users_table w" "new_row e name addr p rl w"]
      by (simp add: new_row_def)
    have ins: "sql_insert e name addr h rl (logged Hash w) =
               (Some (auto_increment w),
                logged Insert ((logged Hash w)
                  \<lparr>users_table := users_table w @ [new_row e name addr p rl w],
                   auto_increment := Suc (auto_increment w)\<rparr>))"
      using False h by (simp add: sql_insert_def Let_def new_row_def)
    show ?thesis using assms f
      by (auto simp: pw hs createUser_def Let_def ins findById_eq first_User_def
          split: if_splits)
  qed
qed

lemma post_register_cases:
  assumes "post_register e req w = (resp, w')"
  shows "(users_table w' = users_table w \<and> status resp \<noteq> 201) \<or>
         (\<exists>r. users_table w' = users_table w @ [r] \<and> col_role r = ROLES_USER \<and>
              col_username r = str_of (body_username (body req)) \<and>
              col_email r = str_of (body_email (body req)) \<and>
              (status resp = 201 \<longrightarrow>
                 payload resp = session_body e ''Registration successful'' (User r) w'))"
proof (cases "register_checks e (body req) = []")
  case False
  then show ?thesis using assms
    by (auto simp: post_register_def invalid_input_def json_response_def)
next
  case valid: True
  obtain res w3 where cu: "createUser e (str_of (body_username (body req)))
          (str_of (body_email (body req))) (body_password (body req)) ROLES_USER
          (logged Select (logged Select w)) = (res, w3)"
    by (cases "createUser e (str_of (body_username (body req)))
          (str_of (body_email (body req))) (body_password (body req)) ROLES_USER
          (logged Select (logged Select w))")
  note cc = createUser_cases [OF cu]
  show ?thesis using assms valid cc
    by (auto simp: post_register_def Let_def findByUsername_eq findByEmail_eq cu
        json_response_def
        split: if_splits option.splits sum.splits)
qed

lemma sample_register: "status (fst (post_register sample_env alice_registers sample_world)) = 201"
  by (simp add: model_defs sample_defs Let_def)

text \<open>
  C2. A registration request leaves the table of users as it was or appends exactly one
  row, and the role of that row is \<open>user\<close>. When the request succeeds (status 201) the
  row carries the requested username, the user in the answer and the subject of the
  issued token are read from that row and have role \<open>user\<close>. The \<open>role\<close> member of the
  body has no influence: with any other value for it, the answer and the resulting world
  are the same.
\<close>

theorem registration_creates_role_user:
  assumes "post_register e req w = (resp, w')"
  shows "(users_table w' = users_table w \<or>
          (\<exists>r. users_table w' = users_table w @ [r] \<and> col_role r = ROLES_USER)) \<and>
         (status resp = 201 \<longrightarrow>
            (\<exists>r. users_table w' = users_table w @ [r] \<and> col_role r = ROLES_USER \<and>
                 col_username r = str_of (body_username (body req)) \<and>
                 payload resp = session_body e ''Registration successful'' (User r) w' \<and>
                 role (User r) = ROLES_USER \<and>
                 sub_role (tokenPayload (User r)) = ROLES_USER)) \<and>
         (\<forall>any. post_register e (req\<lparr>body := (body req)\<lparr>body_role := any\<rparr>\<rparr>) w = (resp, w'))"
proof -
  have ignore: "\<forall>any. post_register e (req\<lparr>body := (body req)\<lparr>body_role := any\<rparr>\<rparr>) w =
      post_register e req w"
    by (simp add: post_register_def register_checks_def password_text_def
        cong: prod.case_cong sum.case_cong option.case_cong)
  have u: "\<And>r. col_role r = ROLES_USER \<Longrightarrow> role (User r) = ROLES_USER \<and>
     sub_role (tokenPayload (User r)) = ROLES_USER"
    by (simp add: User_def tokenPayload_def ROLES_USER_def)
  from post_register_cases [OF assms] show ?thesis
    using ignore assms u by auto
qed

theorem registration_creates_role_user_witness:
  "\<exists>r. users_table (snd (post_register sample_env alice_registers sample_world)) =
          users_table sample_world @ [r] \<and>
        col_username r = ''alice'' \<and> col_role r = ''user''"
  using registration_creates_role_user [where e = sample_env and w = sample_world
      and req = alice_registers, OF surjective_pairing] sample_register
  by (auto simp: ROLES_USER_def str_of_def anonymous_def account_def alice_registers_def)






section \<open>Login\<close>

text \<open>
  Two login requests pass the validators; the username of the first matches no user, the
  username of the second matches a user whose stored hash the supplied password is
  compared with and does not verify against. Then the two runs give the same answer,
  status 400 with the message "Invalid username or password", and leave the same world.
\<close>

lemma compared_login_failures_are_identical:
  assumes "login_checks (body req1) = []" and "login_checks (body req2) = []"
    and "fst (findByUsername e (str_of (body_username (body req1))) w) = Inr None"
    and "fst (findByUsername e (str_of (body_username (body req2))) w) = Inr (Some u)"
    and "checkPassword e u (body_password (body req2)) = Inr False"
  shows "post_login e req1 w = post_login e req2 w \<and>
         fst (post_login e req1 w) =
           json_response 400 (message_only ''Invalid username or password'')"
  using assms
  by (simp add: post_login_def findByUsername_eq split: if_splits)

text \<open>
  A password that is not a string passes the validators when its conversion to a string
  is not empty, and is refused by \<open>bcrypt.compare\<close>: for a username that exists the
  answer is then status 500, "Login failed, please try again".
\<close>

lemma login_with_a_non_string_password:
  assumes "login_checks (body req) = []"
    and "fst (findByUsername e (str_of (body_username (body req))) w) = Inr (Some u)"
    and "body_password (body req) = Some (NonString s t)"
  shows "fst (post_login e req w) =
           json_response 500 (message_only ''Login failed, please try again'')"
  using assms
  by (simp add: post_login_def findByUsername_eq checkPassword_def js_bcrypt_compare_def
      split: if_splits)

text \<open>
  C7. In the sample world two login requests carry the number 12345678 as password; both
  pass the validators, and both fail. For the username \<open>nobody\<close>, which matches no
  user, the answer is status 400, "Invalid username or password". For the username
  \<open>john_doe\<close>, which exists, \<open>bcrypt.compare\<close> refuses the number, and the answer is
  status 500, "Login failed, please try again". The two failures differ in status and
  in message, and so tell the caller that \<open>john_doe\<close> exists.
\<close>

theorem login_failure_reveals_the_username:
  "login_checks (body (anonymous (login_with ''nobody'' (NonString ''12345678'' True)))) = [] \<and>
   login_checks (body (anonymous (login_with ''john_doe'' (NonString ''12345678'' True)))) = [] \<and>
   post_login sample_env (anonymous (login_with ''nobody'' (NonString ''12345678'' True)))
     sample_world =
     (json_response 400 (message_only ''Invalid username or password''),
      logged Select sample_world) \<and>
   post_login sample_env (anonymous (login_with ''john_doe'' (NonString ''12345678'' True)))
     sample_world =
     (json_response 500 (message_only ''Login failed, please try again''),
      logged Select sample_world) \<and>
   post_login sample_env (anonymous (login_with ''nobody'' (NonString ''12345678'' True)))
     sample_world \<noteq>
   post_login sample_env (anonymous (login_with ''john_doe'' (NonString ''12345678'' True)))
     sample_world"
  by (simp add: model_defs sample_defs)

section \<open>The dashboard\<close>

text \<open>
  C10. Whatever the request holds, in particular with no token at all, the dashboard
  route answers 200 when the store answers the query, and the member \<open>totalUsers\<close> of
  \<open>stats\<close> is the number of rows of the table of users. The listing route answers 200
  only to a request whose token validates to a subject of role \<open>admin\<close>.
\<close>

theorem dashboard_counts_users:
  assumes "\<not> fails_now e w"
  shows "status (fst (get_dashboard e req w)) = 200 \<and>
         Option.bind (member ''stats'' (payload (fst (get_dashboard e req w))))
           (member ''totalUsers'') = Some (JNum (int (length (users_table w)))) \<and>
         (status (fst (get_users e req w)) = 200 \<longrightarrow>
            (\<exists>t c. token req = Some t \<and> jwt_verify e t (clock w) = Inr c \<and>
                   sub_role c = ROLES_ADMIN))"
proof -
  have 1: "getAllUsers e w =
      (Inr (map (\<lambda>r. User (r\<lparr>col_password := None\<rparr>))
             (rev (sort_key col_created_at (users_table w)))), logged Select w)"
    using assms by (simp add: getAllUsers_def sql_select_def)
  have 2: "status (fst (get_users e req w)) = 200 \<longrightarrow>
            (\<exists>t c. token req = Some t \<and> jwt_verify e t (clock w) = Inr c \<and>
                   sub_role c = ROLES_ADMIN)"
    by (auto simp: get_users_def protected_def authenticateToken_def authorize_def
        Unauthorized_def Forbidden_def json_response_def ROLES_ADMIN_def ROLES_USER_def
        split: option.splits sum.splits if_splits)
  show ?thesis using 2
    by (simp add: get_dashboard_def 1 json_response_def member_def)
qed

theorem dashboard_counts_users_witness:
  "status (fst (get_dashboard sample_env (anonymous no_body) sample_world)) = 200 \<and>
   Option.bind (member ''stats''
       (payload (fst (get_dashboard sample_env (anonymous no_body) sample_world))))
     (member ''totalUsers'') = Some (JNum 2) \<and>
   token (anonymous no_body) = None \<and>
   get_users sample_env (anonymous no_body) sample_world = (Unauthorized, sample_world)"
  using dashboard_counts_users [where e = sample_env and w = sample_world
      and req = "anonymous no_body", OF sample_answers]
  by (simp add: sample_world_def anonymous_def get_users_def protected_def
      authenticateToken_def)

section \<open>What a response shows of a user\<close>

lemma payload_json_response [simp]: "payload (json_response code j) = j"
  by (simp add: json_response_def)

lemma has_key_list_append [simp]:
  "has_key_list k (xs @ ys) = (has_key_list k xs \<or> has_key_list k ys)"
  by (induction xs) auto

lemma no_password_message [simp]: "\<not> has_key ''password'' (message_only m)"
  by (simp add: message_only_def)

lemma no_password_check [simp]: "\<not> has_key_list ''password'' (check v msg valid)"
  by (simp add: check_def)

lemma no_password_check_optional [simp]:
  "\<not> has_key_list ''password'' (check_optional v msg valid)"
  by (simp add: check_optional_def split: option.splits)

lemma no_password_invalid_input [simp]:
  "has_key ''password'' (payload (invalid_input m errors)) = has_key_list ''password'' errors"
  by (simp add: invalid_input_def)

lemma no_password_toJSON [simp]: "\<not> has_key ''password'' (toJSON u)"
  by (simp add: toJSON_def own_properties_def split: option.splits)

lemma no_password_json_of_user [simp]: "\<not> has_key ''password'' (json_of_user v)"
  by (simp add: json_of_user_def split: option.splits)

lemma no_password_users [simp]: "\<not> has_key_list ''password'' (map toJSON us)"
  by (induction us) simp_all

lemma no_password_session [simp]: "\<not> has_key ''password'' (session_body e m u w)"
  by (simp add: session_body_def)

lemma no_password_denied [simp]:
  "\<not> has_key ''password'' (payload Unauthorized)"
  "\<not> has_key ''password'' (payload Forbidden)"
  by (simp_all add: Unauthorized_def Forbidden_def)

lemma no_password_register: "\<not> has_key ''password'' (payload (fst (post_register e req w)))"
  by (simp add: post_register_def register_checks_def Let_def
      split: prod.split sum.split option.split)

lemma no_password_login: "\<not> has_key ''password'' (payload (fst (post_login e req w)))"
  by (simp add: post_login_def login_checks_def Let_def
      split: prod.split sum.split option.split)

lemma no_password_protected:
  assumes "\<And>c. \<not> has_key ''password'' (payload (fst (h c req w)))"
  shows "\<not> has_key ''password'' (payload (fst (protected e rl h req w)))"
  using assms
  by (simp add: protected_def authenticateToken_def split: option.split sum.split)

lemma no_password_authenticated:
  assumes "\<And>c. \<not> has_key ''password'' (payload (fst (h c req w)))"
  shows "\<not> has_key ''password'' (payload (fst (authenticated e h req w)))"
  using assms
  by (simp add: authenticated_def authenticateToken_def split: option.split sum.split)

lemma no_password_me: "\<not> has_key ''password'' (payload (fst (me_handler e c req w)))"
  by (simp add: me_handler_def split: prod.split sum.split option.split)

lemma no_password_list: "\<not> has_key ''password'' (payload (fst (list_handler e c req w)))"
  by (simp add: list_handler_def split: prod.split sum.split option.split)

lemma no_password_get: "\<not> has_key ''password'' (payload (fst (get_handler e c req w)))"
  by (simp add: get_handler_def split: prod.split sum.split option.split)

lemma no_password_create: "\<not> has_key ''password'' (payload (fst (create_handler e c req w)))"
  by (simp add: create_handler_def create_checks_def Let_def
      split: prod.split sum.split option.split)

lemma no_password_update: "\<not> has_key ''password'' (payload (fst (update_handler e c req w)))"
  by (simp add: update_handler_def update_checks_def Let_def
      split: prod.split sum.split option.split)

lemma no_password_delete: "\<not> has_key ''password'' (payload (fst (delete_handler e c req w)))"
  by (simp add: delete_handler_def Let_def
      split: prod.split sum.split option.split)

text \<open>
  C6. The body of the answer of register, login, whoami, list users, get user, create
  user, update user and delete user has, in every environment, for every request and in
  every world, no member named \<open>password\<close> at any depth: no user object in it carries
  the credential.
\<close>

theorem responses_never_carry_the_password:
  "\<not> has_key ''password'' (payload (fst (post_register e req w))) \<and>
   \<not> has_key ''password'' (payload (fst (post_login e req w))) \<and>
   \<not> has_key ''password'' (payload (fst (get_me e req w))) \<and>
   \<not> has_key ''password'' (payload (fst (get_users e req w))) \<and>
   \<not> has_key ''password'' (payload (fst (get_user e req w))) \<and>
   \<not> has_key ''password'' (payload (fst (post_user e req w))) \<and>
   \<not> has_key ''password'' (payload (fst (put_user e req w))) \<and>
   \<not> has_key ''password'' (payload (fst (delete_user e req w)))"
  by (simp add: no_password_register no_password_login get_me_def get_users_def get_user_def
      post_user_def put_user_def delete_user_def no_password_protected
      no_password_authenticated no_password_me no_password_list no_password_get
      no_password_create no_password_update no_password_delete)

text \<open>In the sample world the administrator reads the record of \<open>john_doe\<close>: the
  instance that the model function returns has the password among its properties, the
  answer has not.\<close>

theorem responses_never_carry_the_password_witness:
  "fst (findById sample_env 2 sample_world) =
     Inr (Some \<lparr>uid = 2, username = ''john_doe'', email = ''john@example.com'',
                password = Some ''#password123'', role = ''user'',
                created_at = 2000, updated_at = 2000\<rparr>) \<and>
   has_key ''password''
     (JObj (own_properties \<lparr>uid = 2, username = ''john_doe'', email = ''john@example.com'',
                password = Some ''#password123'', role = ''user'',
                created_at = 2000, updated_at = 2000\<rparr>)) \<and>
   status (fst (get_user sample_env (as_admin 2 no_body) sample_world)) = 200 \<and>
   \<not> has_key ''password'' (payload (fst (get_user sample_env (as_admin 2 no_body)
       sample_world)))"
  using responses_never_carry_the_password [of sample_env "as_admin 2 no_body" sample_world]
  by (simp add: get_user_def protected_def authenticateToken_def authorize_def
      get_handler_def own_properties_def model_defs sample_defs)

section \<open>Updating a password\<close>

lemma set_columns_keeps_password:
  assumes "''password'' \<notin> fst ` set sets"
  shows "col_password (set_columns sets r) = col_password r"
  using assms by (induction sets arbitrary: r) (auto simp: set_column_def)

lemma sql_update_keeps_passwords:
  assumes "''password'' \<notin> fst ` set sets"
  shows "map col_password (users_table (snd (sql_update e sets i w))) =
         map col_password (users_table w)"
  using assms by (simp add: sql_update_def Let_def set_columns_keeps_password o_def)

lemma findById_keeps_table [simp]: "users_table (snd (findById e i w)) = users_table w"
  by (simp add: findById_eq)

lemma updateUser_keeps_passwords:
  "map col_password (users_table (snd (updateUser e i updates w))) =
   map col_password (users_table w)"
proof -
  have a: "''password'' \<notin> fst ` set (filter (\<lambda>fv. fst fv \<in> set allowedFields) updates)"
    by (auto simp: allowedFields_def)
  obtain ok w1 where
    s: "sql_update e (filter (\<lambda>fv. fst fv \<in> set allowedFields) updates) i w = (ok, w1)"
    by (cases "sql_update e (filter (\<lambda>fv. fst fv \<in> set allowedFields) updates) i w")
  with sql_update_keeps_passwords [OF a, of e i w]
  have k: "map col_password (users_table w1) = map col_password (users_table w)" by simp
  show ?thesis
    by (cases ok) (simp_all add: updateUser_def Let_def s k findById_eq)
qed

lemma updateUserRole_keeps_passwords:
  "map col_password (users_table (snd (updateUserRole e i r w))) =
   map col_password (users_table w)"
proof -
  have a: "''password'' \<notin> fst ` set [(''role'', r)]" by simp
  obtain ok w1 where s: "sql_update e [(''role'', r)] i w = (ok, w1)"
    by (cases "sql_update e [(''role'', r)] i w")
  with sql_update_keeps_passwords [OF a, of e i w]
  have k: "map col_password (users_table w1) = map col_password (users_table w)" by simp
  show ?thesis
    by (cases ok) (simp_all add: updateUserRole_def s k findById_eq)
qed

lemma prepare_updates_keeps_table [simp]:
  "users_table (snd (prepare_updates e b w)) = users_table w"
  by (simp add: prepare_updates_def Let_def split: option.split)

lemma update_handler_keeps_passwords:
  "map col_password (users_table (snd (update_handler e c req w))) =
   map col_password (users_table w)"
proof -
  obtain r1 w1 where f: "findById e (params_id req) w = (r1, w1)"
    by (cases "findById e (params_id req) w")
  then have 1: "users_table w1 = users_table w"
    using findById_keeps_table [of e "params_id req" w] by simp
  obtain pr w2 where p: "prepare_updates e (body req) w1 = (pr, w2)"
    by (cases "prepare_updates e (body req) w1")
  then have 2: "users_table w2 = users_table w"
    using prepare_updates_keeps_table [of e "body req" w1] 1 by simp
  have 3: "map col_password (users_table w3) = map col_password (users_table w)"
    if "updateUser e (params_id req) ups w2 = (r3, w3)" for ups r3 w3
    using updateUser_keeps_passwords [of e "params_id req" ups w2] that 2 by simp
  have 4: "map col_password (users_table w4) = map col_password (users_table w)"
    if "updateUser e (params_id req) ups w2 = (r3, w3)"
      and "updateUserRole e (params_id req) rl w3 = (r4, w4)" for ups r3 w3 rl r4 w4
    using updateUserRole_keeps_passwords [of e "params_id req" rl w3] 3 [OF that(1)] that(2)
    by simp
  show ?thesis
  proof (cases pr)
    case (Inl err)
    then show ?thesis
      by (simp add: update_handler_def Let_def f p 1 2 split: sum.split option.split)
  next
    case (Inr ups)
    obtain r3 w3 where u: "updateUser e (params_id req) ups w2 = (r3, w3)"
      by (cases "updateUser e (params_id req) ups w2")
    obtain r4 w4 where
      v: "updateUserRole e (params_id req) (str_of (body_role (body req))) w3 = (r4, w4)"
      by (cases "updateUserRole e (params_id req) (str_of (body_role (body req))) w3")
    show ?thesis
      by (simp add: update_handler_def Let_def f p Inr u v 1 2 3 [OF u] 4 [OF u v]
          split: sum.split option.split)
  qed
qed

text \<open>No update request, whoever sends it and whatever it holds, changes the password
  column of any row: \<open>updateUser\<close> keeps only the entries named in \<open>allowedFields\<close>.\<close>

lemma put_user_keeps_passwords:
  "map col_password (users_table (snd (put_user e req w))) = map col_password (users_table w)"
  by (simp add: put_user_def protected_def update_handler_keeps_passwords
      split: sum.split)

text \<open>
  C3. In the sample world the administrator sends the update request for \<open>john_doe\<close>
  with the single member \<open>password\<close>, a valid one. The route computes the hash and
  answers 200, "User updated successfully"; the calls made are the lookup, the hash and
  the read-back, no \<open>UPDATE\<close>, and the table of users, the stored hash of \<open>john_doe\<close>
  included, is the one before the request. Afterwards the new password is refused at
  login and the old one is accepted.
\<close>

theorem update_drops_the_password:
  "status (fst (put_user sample_env (as_admin 2 (password_only ''newsecret1''))
     sample_world)) = 200 \<and>
   member ''message'' (payload (fst (put_user sample_env
     (as_admin 2 (password_only ''newsecret1'')) sample_world))) =
     Some (JStr ''User updated successfully'') \<and>
   calls (snd (put_user sample_env (as_admin 2 (password_only ''newsecret1''))
     sample_world)) = [Select, Hash, Select] \<and>
   users_table (snd (put_user sample_env (as_admin 2 (password_only ''newsecret1''))
     sample_world)) = users_table sample_world \<and>
   status (fst (post_login sample_env (anonymous (credentials ''john_doe'' ''newsecret1''))
     (snd (put_user sample_env (as_admin 2 (password_only ''newsecret1''))
        sample_world)))) = 400 \<and>
   status (fst (post_login sample_env (anonymous (credentials ''john_doe'' ''password123''))
     (snd (put_user sample_env (as_admin 2 (password_only ''newsecret1''))
        sample_world)))) = 200"
  by (simp add: put_user_def protected_def authenticateToken_def authorize_def
      update_handler_def update_checks_def model_defs sample_defs Let_def member_def)

end
